theory Spec2Isabelle
  imports Main "HOL-Library.AList"
begin

section \<open>The cookie jar of ako-deno/cookies\<close>

text \<open>
  The repository holds two revisions of \<^verbatim>\<open>mod.ts\<close>, both defining the class
  \<^verbatim>\<open>CookieJar extends Map<string, string>\<close>. The earlier revision is embedded with the
  suffix \<open>_v1\<close>, the later one (which adds duration strings, the sameSite table, options
  for \<^verbatim>\<open>delete\<close> and the skip rule of \<^verbatim>\<open>clear\<close>) with the suffix \<open>_v2\<close>.

  A jar is a record of the private fields and of the entries of the underlying
  \<^verbatim>\<open>Map\<close>. Every method takes the jar and returns the jar it leaves behind, paired
  with either the value it returns or the error it throws: a JavaScript exception does
  not undo what the method did before throwing, so the jar is returned in both cases.
\<close>

subsection \<open>JavaScript values\<close>

text \<open>
  Strings are lists of 8-bit characters: code units above U+00FF are outside the model
  (\<^verbatim>\<open>FIELD_CONTENT_REGEXP\<close> rejects every one of them). The \<^verbatim>\<open>value\<close> argument of
  \<^verbatim>\<open>set\<close> is \<^verbatim>\<open>undefined\<close>, \<^verbatim>\<open>null\<close> or a string.
\<close>

datatype error = TypeError string | Error string

datatype jsvalue = Undefined | Null | Str string

text \<open>Truthiness of a value: \<^verbatim>\<open>undefined\<close>, \<^verbatim>\<open>null\<close> and \<^verbatim>\<open>""\<close> are falsy.\<close>

fun truthy :: "jsvalue \<Rightarrow> bool" where
  "truthy Undefined = False"
| "truthy Null = False"
| "truthy (Str s) = (s \<noteq> [])"

text \<open>What a template literal \<^verbatim>\<open>`${v}`\<close> prints.\<close>

fun template :: "jsvalue \<Rightarrow> string" where
  "template Undefined = ''undefined''"
| "template Null = ''null''"
| "template (Str s) = s"

text \<open>The same for the result of \<^verbatim>\<open>Map.prototype.get\<close>, a string or \<^verbatim>\<open>undefined\<close>.\<close>

fun template_opt :: "string option \<Rightarrow> string" where
  "template_opt None = ''undefined''"
| "template_opt (Some s) = s"

subsection \<open>Validator\<close>

text \<open>
  \<^verbatim>\<open>const FIELD_CONTENT_REGEXP = /^[\u0009\u0020-\u007e\u0080-\u00ff]+$/;\<close>
\<close>

definition field_vchar :: "char \<Rightarrow> bool" where
  "field_vchar c =
     (let n = (of_char c :: nat)
      in n = 9 \<or> (32 \<le> n \<and> n \<le> 126) \<or> (128 \<le> n \<and> n \<le> 255))"

definition FIELD_CONTENT_REGEXP :: "string \<Rightarrow> bool" where
  "FIELD_CONTENT_REGEXP s = (s \<noteq> [] \<and> list_all field_vchar s)"

subsection \<open>Options and cookies\<close>

text \<open>
  The fields of \<^verbatim>\<open>CookieOptions\<close> carry the prefix \<open>o_\<close>, those of the \<^verbatim>\<open>Cookie\<close>
  handed to the transport the prefix \<open>c_\<close>. An absent field is \<open>None\<close>. Numbers are
  integers; a \<^verbatim>\<open>Date\<close> is the argument its constructor was given.
\<close>

datatype sameSite_in = SSTrue | SSString string

datatype sameSite_out = SameSite string | Inherited string

datatype maxAge_in = MNum int | MStr string

datatype jsdate = Date int | DateString string

datatype expires_in = EDate jsdate | ENum int | EStr string

record CookieOptions =
  o_maxAge :: "maxAge_in option"
  o_expires :: "expires_in option"
  o_path :: "string option"
  o_domain :: "string option"
  o_secure :: "bool option"
  o_httpOnly :: "bool option"
  o_signed :: "bool option"
  o_overwrite :: "bool option"
  o_sameSite :: "sameSite_in option"

text \<open>The empty options object \<^verbatim>\<open>{}\<close>.\<close>

definition no_opts :: CookieOptions where
  "no_opts = \<lparr>o_maxAge = None, o_expires = None, o_path = None, o_domain = None,
     o_secure = None, o_httpOnly = None, o_signed = None, o_overwrite = None,
     o_sameSite = None\<rparr>"

record Cookie =
  c_name :: string
  c_value :: jsvalue
  c_secure :: "bool option"
  c_domain :: "string option"
  c_path :: string
  c_httpOnly :: bool
  c_sameSite :: "sameSite_out option"
  c_maxAge :: "maxAge_in option"
  c_expires :: "expires_in option"

subsection \<open>The transport\<close>

text \<open>
  \<^verbatim>\<open>setCookie(res, cookie)\<close> and \<^verbatim>\<open>deleteCookie(res, name)\<close> come from the standard
  library. The response is the sequence of the calls made on it, in order: one directive
  per call. What the library makes of a cookie, and whether it refuses one, is not
  modelled.
\<close>

datatype directive = SetCookie Cookie | DeleteCookie string

definition setCookie :: "directive list \<Rightarrow> Cookie \<Rightarrow> directive list" where
  "setCookie res cookie = res @ [SetCookie cookie]"

definition deleteCookie :: "directive list \<Rightarrow> string \<Rightarrow> directive list" where
  "deleteCookie res name = res @ [DeleteCookie name]"

subsection \<open>The keyring and the other collaborators\<close>

text \<open>
  The keyed digest of the Keygrip library, the duration parser \<^verbatim>\<open>ms\<close> (\<open>None\<close> where it
  returns \<^verbatim>\<open>undefined\<close>; its results are whole milliseconds) and \<^verbatim>\<open>Date.now()\<close> are
  parameters of the model.
\<close>

record collaborators =
  hmac :: "string \<Rightarrow> string \<Rightarrow> string"
  ms :: "string \<Rightarrow> int option"
  now :: int

text \<open>A keyring holds at least one key: the current key and the older ones.\<close>

datatype Keygrip = Keygrip string "string list"

fun keys_of :: "Keygrip \<Rightarrow> string list" where
  "keys_of (Keygrip k ks) = k # ks"

text \<open>\<^verbatim>\<open>Array.prototype.findIndex\<close>: the first position that satisfies \<open>P\<close>, or \<open>-1\<close>.\<close>

fun findIndex :: "('a \<Rightarrow> bool) \<Rightarrow> 'a list \<Rightarrow> int" where
  "findIndex P [] = - 1"
| "findIndex P (x # xs) =
     (if P x then 0
      else (let r = findIndex P xs in if r = - 1 then - 1 else r + 1))"

text \<open>
  Modelled from the spec: the keyring of the Keygrip library, which is not part of this
  repository. \<open>sign\<close> always signs with the current (position-0) key; \<open>index\<close> checks the
  signature against each key in order and returns the first matching position, or \<open>-1\<close>.
\<close>

fun sign :: "collaborators \<Rightarrow> Keygrip \<Rightarrow> string \<Rightarrow> string" where
  "sign E (Keygrip k ks) data = hmac E k data"

definition index :: "collaborators \<Rightarrow> Keygrip \<Rightarrow> string \<Rightarrow> string \<Rightarrow> int" where
  "index E kg data digest = findIndex (\<lambda>key. digest = hmac E key data) (keys_of kg)"

subsection \<open>The jar and its underlying Map\<close>

text \<open>
  The entries of the \<^verbatim>\<open>Map\<close> are kept in insertion order with unique keys:
  \<^verbatim>\<open>super.set\<close> replaces the value of a key in place or appends a new entry.
  The constructor keeps the response, the flag \<^verbatim>\<open>secure\<close> and the keyring, and copies
  the cookies of the request into the Map as they are, without validating them: a jar of
  the model is any state it can leave.
\<close>

record CookieJar =
  j_res :: "directive list"
  j_secure :: bool
  j_keys :: "Keygrip option"
  j_store :: "(string \<times> string) list"

definition super_get :: "CookieJar \<Rightarrow> string \<Rightarrow> string option" where
  "super_get jar name = map_of (j_store jar) name"

definition super_has :: "CookieJar \<Rightarrow> string \<Rightarrow> bool" where
  "super_has jar name = (map_of (j_store jar) name \<noteq> None)"

definition super_set :: "CookieJar \<Rightarrow> string \<Rightarrow> string \<Rightarrow> CookieJar" where
  "super_set jar name v = jar\<lparr>j_store := AList.update name v (j_store jar)\<rparr>"

definition super_delete :: "CookieJar \<Rightarrow> string \<Rightarrow> bool \<times> CookieJar" where
  "super_delete jar name =
     (super_has jar name, jar\<lparr>j_store := AList.delete name (j_store jar)\<rparr>)"

definition super_clear :: "CookieJar \<Rightarrow> CookieJar" where
  "super_clear jar = jar\<lparr>j_store := []\<rparr>"

type_synonym 'a result = "(error + 'a) \<times> CookieJar"

subsection \<open>Checks shared by both revisions\<close>

text \<open>\<^verbatim>\<open>opt && !FIELD_CONTENT_REGEXP.test(opt)\<close> for an optional string.\<close>

fun invalid_opt :: "string option \<Rightarrow> bool" where
  "invalid_opt None = False"
| "invalid_opt (Some s) = (s \<noteq> [] \<and> \<not> FIELD_CONTENT_REGEXP s)"

text \<open>\<^verbatim>\<open>opts.signed ?? !!this.#keys\<close>\<close>

definition signing :: "bool option \<Rightarrow> CookieJar \<Rightarrow> bool" where
  "signing sgn_opt jar = (case sgn_opt of Some b \<Rightarrow> b | None \<Rightarrow> j_keys jar \<noteq> None)"

text \<open>Truthiness of a \<^verbatim>\<open>sameSite\<close> option: only the empty string is falsy.\<close>

fun sameSite_truthy :: "sameSite_in \<Rightarrow> bool" where
  "sameSite_truthy SSTrue = True"
| "sameSite_truthy (SSString s) = (s \<noteq> [])"

section \<open>The earlier revision\<close>

text \<open>\<^verbatim>\<open>const SAME_SITE = [ true, 'strict', 'lax', 'none' ];\<close> and its \<^verbatim>\<open>includes\<close>.\<close>

fun SAME_SITE_includes :: "sameSite_in \<Rightarrow> bool" where
  "SAME_SITE_includes SSTrue = True"
| "SAME_SITE_includes (SSString s) = (s = ''strict'' \<or> s = ''lax'' \<or> s = ''none'')"

text \<open>
  \<^verbatim>\<open>if (opts.overwrite || !super.has(cookie.name)) {
       setCookie(this.#res, cookie); super.set(cookie.name, cookie.value); }\<close>
\<close>

definition setCookie_v1 :: "Cookie \<Rightarrow> CookieOptions \<Rightarrow> CookieJar \<Rightarrow> CookieJar" where
  "setCookie_v1 cookie opts jar =
     (if o_overwrite opts = Some True \<or> \<not> super_has jar (c_name cookie)
      then super_set (jar\<lparr>j_res := setCookie (j_res jar) cookie\<rparr>)
             (c_name cookie) (template (c_value cookie))
      else jar)"

definition delete_v1 :: "string \<Rightarrow> CookieJar \<Rightarrow> bool result" where
  "delete_v1 name jar =
     (if \<not> FIELD_CONTENT_REGEXP name
      then (Inl (TypeError ''argument name is invalid''), jar)
      else
        (let jar1 = jar\<lparr>j_res := deleteCookie (j_res jar) name\<rparr>;
             (d, jar2) = super_delete jar1 name
         in (Inr d, jar2)))"

text \<open>
  The cookie built here has the fields \<^verbatim>\<open>name, value, secure, path, httpOnly, maxAge\<close>
  only. A missing \<^verbatim>\<open>opts\<close> argument defaults to \<^verbatim>\<open>{}\<close>.
\<close>

definition set_v1 ::
  "collaborators \<Rightarrow> string \<Rightarrow> jsvalue \<Rightarrow> CookieOptions option \<Rightarrow> CookieJar \<Rightarrow> unit result" where
  "set_v1 E name val options jar =
     (let opts = (case options of None \<Rightarrow> no_opts | Some o1 \<Rightarrow> o1)
      in if \<not> truthy val then
           (case delete_v1 name jar of
              (Inl e, jar1) \<Rightarrow> (Inl e, jar1)
            | (Inr d, jar1) \<Rightarrow> (Inr (), jar1))
         else if \<not> FIELD_CONTENT_REGEXP name
           then (Inl (TypeError ''argument name is invalid''), jar)
         else if \<not> FIELD_CONTENT_REGEXP (template val)
           then (Inl (TypeError ''argument value is invalid''), jar)
         else if invalid_opt (o_path opts)
           then (Inl (TypeError ''option path is invalid''), jar)
         else if invalid_opt (o_domain opts)
           then (Inl (TypeError ''option domain is invalid''), jar)
         else if (case o_sameSite opts of
                    None \<Rightarrow> False
                  | Some x \<Rightarrow> sameSite_truthy x \<and> \<not> SAME_SITE_includes x)
           then (Inl (TypeError ''option sameSite is invalid''), jar)
         else
           (let secure = (o_secure opts = Some True)
            in if \<not> j_secure jar \<and> secure
               then (Inl (Error ''Cannot send secure cookie over unencrypted connection''), jar)
               else
                 (let cookie = \<lparr>c_name = name, c_value = val, c_secure = Some secure,
                        c_domain = None,
                        c_path = (case o_path opts of None \<Rightarrow> ''/'' | Some p \<Rightarrow> p),
                        c_httpOnly = (case o_httpOnly opts of None \<Rightarrow> True | Some h \<Rightarrow> h),
                        c_sameSite = None, c_maxAge = o_maxAge opts, c_expires = None\<rparr>;
                      jar1 = setCookie_v1 cookie opts jar
                  in if signing (o_signed opts) jar1 then
                       (case j_keys jar1 of
                          None \<Rightarrow> (Inl (Error ''.keys required for signed cookies''), jar1)
                        | Some kg \<Rightarrow>
                            (let name' = c_name cookie @ ''.sig'';
                                 cookie' = cookie\<lparr>c_name := name',
                                   c_value :=
                                     Str (sign E kg (name' @ ''='' @ template (c_value cookie)))\<rparr>
                             in (Inr (), setCookie_v1 cookie' opts jar1)))
                     else (Inr (), jar1))))"

text \<open>
  Here \<^verbatim>\<open>get\<close> returns the value only from inside the branch that verified a
  signature; with signing in effect and no signature stored it returns \<^verbatim>\<open>undefined\<close>.
\<close>

definition get_v1 ::
  "collaborators \<Rightarrow> string \<Rightarrow> bool option \<Rightarrow> CookieJar \<Rightarrow> string option result" where
  "get_v1 E name sgn_opt jar =
     (let val = super_get jar name
      in if \<not> signing sgn_opt jar then (Inr val, jar)
         else
           (let signedName = name @ ''.sig'';
                remote = super_get jar signedName
            in case remote of
                 None \<Rightarrow> (Inr None, jar)
               | Some sg \<Rightarrow>
                   if sg = [] then (Inr None, jar)
                   else
                     (let data = name @ ''='' @ template_opt val
                      in case j_keys jar of
                           None \<Rightarrow> (Inl (Error ''Keys required for signed cookies''), jar)
                         | Some kg \<Rightarrow>
                             (let idx = index E kg data sg
                              in if idx = - 1 then
                                   (case delete_v1 signedName jar of
                                      (Inl e, jar1) \<Rightarrow> (Inl e, jar1)
                                    | (Inr d, jar1) \<Rightarrow> (Inr None, jar1))
                                 else if idx \<noteq> 0 then
                                   (case set_v1 E signedName (Str (sign E kg data))
                                           (Some (no_opts\<lparr>o_signed := Some False\<rparr>)) jar of
                                      (Inl e, jar1) \<Rightarrow> (Inl e, jar1)
                                    | (Inr u, jar1) \<Rightarrow> (Inr val, jar1))
                                 else (Inr val, jar)))))"

text \<open>
  \<^verbatim>\<open>for (const key of this.keys()) deleteCookie(this.#res, key); super.clear();\<close>
\<close>

definition clear_v1 :: "CookieJar \<Rightarrow> CookieJar" where
  "clear_v1 jar =
     super_clear (jar\<lparr>j_res := fold (\<lambda>key res. deleteCookie res key)
                                  (map fst (j_store jar)) (j_res jar)\<rparr>)"

section \<open>The later revision\<close>

subsection \<open>Parsing the attributes\<close>

text \<open>
  \<^verbatim>\<open>const SAME_SITE = { true: "Strict", strict: "Strict", lax: "Lax", none: "None" }\<close>.
  Indexing an object literal also finds the members it inherits from
  \<^verbatim>\<open>Object.prototype\<close>; two of them have a name without capitals.
\<close>

definition SAME_SITE :: "string \<Rightarrow> sameSite_out option" where
  "SAME_SITE key =
     (if key = ''true'' then Some (SameSite ''Strict'')
      else if key = ''strict'' then Some (SameSite ''Strict'')
      else if key = ''lax'' then Some (SameSite ''Lax'')
      else if key = ''none'' then Some (SameSite ''None'')
      else if key = ''constructor'' \<or> key = ''__proto__'' then Some (Inherited key)
      else None)"

text \<open>\<^verbatim>\<open>String.prototype.toLowerCase\<close> on the code units below U+0100.\<close>

definition lower_char :: "char \<Rightarrow> char" where
  "lower_char c =
     (let n = (of_char c :: nat)
      in if (65 \<le> n \<and> n \<le> 90) \<or> (192 \<le> n \<and> n \<le> 222 \<and> n \<noteq> 215)
         then char_of (n + 32) else c)"

definition toLowerCase :: "string \<Rightarrow> string" where
  "toLowerCase s = map lower_char s"

fun sameSite_String :: "sameSite_in \<Rightarrow> string" where
  "sameSite_String SSTrue = ''true''"
| "sameSite_String (SSString s) = s"

fun sameSite_is_string :: "sameSite_in \<Rightarrow> bool" where
  "sameSite_is_string SSTrue = False"
| "sameSite_is_string (SSString s) = True"

text \<open>
  \<^verbatim>\<open>if (sameSite) { const key = String(sameSite).toLowerCase();
       sameSite = SAME_SITE[key];
       if (typeof opts.sameSite != "string") throw new TypeError(...) }\<close>
  A falsy input (the empty string) is passed on as it is.
\<close>

definition parse_sameSite :: "sameSite_in option \<Rightarrow> error + sameSite_out option" where
  "parse_sameSite ss =
     (case ss of
        None \<Rightarrow> Inr None
      | Some x \<Rightarrow>
          if sameSite_truthy x then
            (let key = toLowerCase (sameSite_String x);
                 sameSite = SAME_SITE key
             in if \<not> sameSite_is_string x
                then Inl (TypeError ''option sameSite is invalid'')
                else Inr sameSite)
          else Inr (Some (SameSite (sameSite_String x))))"

text \<open>
  \<^verbatim>\<open>(res / 1000) | 0\<close>: the quotient truncated towards zero, then wrapped to a signed
  32-bit integer.
\<close>

definition seconds_of_ms :: "int \<Rightarrow> int" where
  "seconds_of_ms r =
     (let q = sgn r * (\<bar>r\<bar> div 1000)
      in (q + 2147483648) mod 4294967296 - 2147483648)"

text \<open>
  \<^verbatim>\<open>if (maxAge && typeof maxAge == "string") { const res = ms(maxAge);
       if (res == null || isNaN(res)) throw new TypeError("maxAge string invalid");
       maxAge = (res / 1000) | 0; }\<close>
\<close>

definition parse_maxAge :: "collaborators \<Rightarrow> maxAge_in option \<Rightarrow> error + maxAge_in option" where
  "parse_maxAge E m =
     (case m of
        Some (MStr s) \<Rightarrow>
          if s \<noteq> [] then
            (case ms E s of
               None \<Rightarrow> Inl (TypeError ''maxAge string invalid'')
             | Some r \<Rightarrow> Inr (Some (MNum (seconds_of_ms r))))
          else Inr m
      | _ \<Rightarrow> Inr m)"

fun expires_truthy :: "expires_in \<Rightarrow> bool" where
  "expires_truthy (EDate d) = True"
| "expires_truthy (ENum n) = (n \<noteq> 0)"
| "expires_truthy (EStr s) = (s \<noteq> [])"

fun new_Date :: "expires_in \<Rightarrow> jsdate" where
  "new_Date (EDate d) = d"
| "new_Date (ENum n) = Date n"
| "new_Date (EStr s) = DateString s"

text \<open>
  \<^verbatim>\<open>if (expires) { if (typeof expires == "string") { const time = ms(expires);
       if (typeof time == "number") expires = Date.now() + time; }
       expires = new Date(expires); }\<close>
\<close>

definition parse_expires :: "collaborators \<Rightarrow> expires_in option \<Rightarrow> expires_in option" where
  "parse_expires E e =
     (case e of
        None \<Rightarrow> None
      | Some x \<Rightarrow>
          if expires_truthy x then
            (let x' = (case x of
                         EStr s \<Rightarrow> (case ms E s of Some time \<Rightarrow> ENum (now E + time) | None \<Rightarrow> x)
                       | _ \<Rightarrow> x)
             in Some (EDate (new_Date x')))
          else Some x)"

subsection \<open>The private method setCookie\<close>

text \<open>
  The secure policy and the three parsers come first; then the cookie is handed to the
  transport; then, when signing applies, the keys are asked for, the same cookie object is
  renamed to \<^verbatim>\<open>name + ".sig"\<close>, its value is replaced by the signature of
  \<^verbatim>\<open>`${cookie.name}=${cookie.value}`\<close> (the name already renamed) and it is handed to
  the transport again. The method never writes the underlying Map.
\<close>

definition setCookie_v2 ::
  "collaborators \<Rightarrow> string \<Rightarrow> jsvalue \<Rightarrow> CookieOptions \<Rightarrow> CookieJar \<Rightarrow> bool result" where
  "setCookie_v2 E name val opts jar =
     (if \<not> j_secure jar \<and> o_secure opts = Some True
      then (Inl (Error ''Cannot send secure cookie over unencrypted connection''), jar)
      else
        (case parse_sameSite (o_sameSite opts) of
           Inl e \<Rightarrow> (Inl e, jar)
         | Inr sameSite \<Rightarrow>
        (case parse_maxAge E (o_maxAge opts) of
           Inl e \<Rightarrow> (Inl e, jar)
         | Inr maxAge \<Rightarrow>
        (let expires = parse_expires E (o_expires opts);
             cookie = \<lparr>c_name = name, c_value = val, c_secure = o_secure opts,
                       c_domain = o_domain opts,
                       c_path = (case o_path opts of None \<Rightarrow> ''/'' | Some p \<Rightarrow> p),
                       c_httpOnly = (case o_httpOnly opts of None \<Rightarrow> True | Some h \<Rightarrow> h),
                       c_sameSite = sameSite, c_maxAge = maxAge, c_expires = expires\<rparr>;
             jar1 = jar\<lparr>j_res := setCookie (j_res jar) cookie\<rparr>
         in if signing (o_signed opts) jar then
              (case j_keys jar of
                 None \<Rightarrow> (Inl (Error ''.keys required for signed cookies''), jar1)
               | Some kg \<Rightarrow>
                   (let name' = c_name cookie @ ''.sig'';
                        cookie' = cookie\<lparr>c_name := name',
                          c_value := Str (sign E kg (name' @ ''='' @ template (c_value cookie)))\<rparr>
                    in (Inr True, jar1\<lparr>j_res := setCookie (j_res jar1) cookie'\<rparr>)))
            else (Inr True, jar1)))))"

subsection \<open>delete, set, get and clear\<close>

text \<open>
  With options, \<^verbatim>\<open>delete\<close> sets \<^verbatim>\<open>opts.maxAge = ""\<close> and
  \<^verbatim>\<open>opts.expires = new Date(0)\<close> (in the caller's object, which is not part of the
  jar) and returns \<^verbatim>\<open>this.setCookie(name, "", opts) && super.delete(name)\<close>.
  Without options it calls \<^verbatim>\<open>deleteCookie(this.#res, name)\<close> and returns
  \<^verbatim>\<open>super.delete(name)\<close>.
\<close>

definition delete_v2 ::
  "collaborators \<Rightarrow> string \<Rightarrow> CookieOptions option \<Rightarrow> CookieJar \<Rightarrow> bool result" where
  "delete_v2 E name opts jar =
     (if \<not> FIELD_CONTENT_REGEXP name
      then (Inl (TypeError ''argument name is invalid''), jar)
      else
        (case opts of
           Some o1 \<Rightarrow>
             (let o2 = o1\<lparr>o_maxAge := Some (MStr []), o_expires := Some (EDate (Date 0))\<rparr>
              in case setCookie_v2 E name (Str []) o2 jar of
                   (Inl e, jar1) \<Rightarrow> (Inl e, jar1)
                 | (Inr b, jar1) \<Rightarrow>
                     if b then (let (d, jar2) = super_delete jar1 name in (Inr d, jar2))
                     else (Inr False, jar1))
         | None \<Rightarrow>
             (let jar1 = jar\<lparr>j_res := deleteCookie (j_res jar) name\<rparr>;
                  (d, jar2) = super_delete jar1 name
              in (Inr d, jar2))))"

text \<open>
  \<^verbatim>\<open>set\<close> returns \<^verbatim>\<open>this\<close>: the result carries no value. \<^verbatim>\<open>value && String(value)\<close>
  leaves a string and a falsy value as they are.
\<close>

definition set_v2 ::
  "collaborators \<Rightarrow> string \<Rightarrow> jsvalue \<Rightarrow> CookieOptions option \<Rightarrow> CookieJar \<Rightarrow> unit result" where
  "set_v2 E name val options jar =
     (if \<not> truthy val \<and> options = None then
        (case delete_v2 E name None jar of
           (Inl e, jar1) \<Rightarrow> (Inl e, jar1)
         | (Inr d, jar1) \<Rightarrow> (Inr (), jar1))
      else
        (let opts = (case options of None \<Rightarrow> no_opts | Some o1 \<Rightarrow> o1)
         in if o_overwrite opts \<noteq> Some True \<and> super_has jar name then (Inr (), jar)
            else if \<not> FIELD_CONTENT_REGEXP name
              then (Inl (TypeError ''argument name is invalid''), jar)
            else if truthy val \<and> \<not> FIELD_CONTENT_REGEXP (template val)
              then (Inl (TypeError ''argument value is invalid''), jar)
            else if invalid_opt (o_path opts)
              then (Inl (TypeError ''option path is invalid''), jar)
            else if invalid_opt (o_domain opts)
              then (Inl (TypeError ''option domain is invalid''), jar)
            else
              (case setCookie_v2 E name val opts jar of
                 (Inl e, jar1) \<Rightarrow> (Inl e, jar1)
               | (Inr b, jar1) \<Rightarrow>
                   if signing (o_signed opts) jar1 then
                     (case j_keys jar1 of
                        None \<Rightarrow> (Inl (Error ''.keys required for signed cookies''), jar1)
                      | Some kg \<Rightarrow>
                          (let name' = name @ ''.sig'';
                               val' = Str (sign E kg (name' @ ''='' @ template val))
                           in case setCookie_v2 E name' val' opts jar1 of
                                (Inl e, jar2) \<Rightarrow> (Inl e, jar2)
                              | (Inr b', jar2) \<Rightarrow> (Inr (), jar2)))
                   else (Inr (), jar1))))"

text \<open>
  The options of \<^verbatim>\<open>get\<close> hold the field \<^verbatim>\<open>signed\<close> only: \<open>sgn_opt\<close> is
  \<^verbatim>\<open>opts?.signed\<close>. The result is the string returned, or \<open>None\<close> for \<^verbatim>\<open>undefined\<close>.
\<close>

definition get_v2 ::
  "collaborators \<Rightarrow> string \<Rightarrow> bool option \<Rightarrow> CookieJar \<Rightarrow> string option result" where
  "get_v2 E name sgn_opt jar =
     (let val = super_get jar name
      in if signing sgn_opt jar then
           (let signatureName = name @ ''.sig'';
                signature = super_get jar signatureName
            in case signature of
                 None \<Rightarrow> (Inr val, jar)
               | Some sg \<Rightarrow>
                   if sg = [] then (Inr val, jar)
                   else
                     (case j_keys jar of
                        None \<Rightarrow> (Inl (Error ''Keys required for signed cookies''), jar)
                      | Some kg \<Rightarrow>
                          (let data = name @ ''='' @ template_opt val;
                               idx = index E kg data sg
                           in if idx = - 1 then
                                (case delete_v2 E signatureName None jar of
                                   (Inl e, jar1) \<Rightarrow> (Inl e, jar1)
                                 | (Inr d, jar1) \<Rightarrow> (Inr None, jar1))
                              else if idx \<noteq> 0 then
                                (case set_v2 E signatureName (Str (sign E kg data))
                                        (Some (no_opts\<lparr>o_signed := Some False\<rparr>)) jar of
                                   (Inl e, jar1) \<Rightarrow> (Inl e, jar1)
                                 | (Inr u, jar1) \<Rightarrow> (Inr val, jar1))
                              else (Inr val, jar))))
         else (Inr val, jar))"

text \<open>\<^verbatim>\<open>has\<close> is inherited from \<^verbatim>\<open>Map\<close> unchanged.\<close>

definition has :: "CookieJar \<Rightarrow> string \<Rightarrow> bool" where
  "has jar name = super_has jar name"

text \<open>
  \<^verbatim>\<open>String.prototype.lastIndexOf\<close>: the last position where \<open>pat\<close> starts in \<open>s\<close>,
  or \<open>-1\<close>.
\<close>

definition lastIndexOf :: "string \<Rightarrow> string \<Rightarrow> int" where
  "lastIndexOf s pat =
     (case filter (\<lambda>i. take (length pat) (drop i s) = pat) (rev [0..<Suc (length s)]) of
        [] \<Rightarrow> - 1
      | i # _ \<Rightarrow> int i)"

text \<open>
  \<^verbatim>\<open>for (const key of this.keys()) { const idx = key.lastIndexOf(".sig");
       if (idx != -1 && super.has(key.substring(0, idx))) continue;
       deleteCookie(this.#res, key); }
     super.clear();\<close>
\<close>

definition clear_v2 :: "CookieJar \<Rightarrow> CookieJar" where
  "clear_v2 jar =
     (let res' = fold (\<lambda>key res.
                    (let idx = lastIndexOf key ''.sig''
                     in if idx \<noteq> - 1 \<and> super_has jar (take (nat idx) key) then res
                        else deleteCookie res key))
                  (map fst (j_store jar)) (j_res jar)
      in super_clear (jar\<lparr>j_res := res'\<rparr>))"

section \<open>Concrete collaborators and jars\<close>

text \<open>
  Where a property is evaluated on a concrete jar, the digest of \<open>data\<close> under \<open>key\<close> is the
  text \<open>key:data\<close>, which tells apart any two keys and any two data strings, and the
  duration parser knows no duration.
\<close>

definition example_env :: collaborators where
  "example_env = \<lparr>hmac = (\<lambda>key data. key @ '':'' @ data), ms = (\<lambda>s. None), now = 0\<rparr>"

text \<open>A jar over a plain connection, without keys and without inbound cookies.\<close>

definition fresh_jar :: CookieJar where
  "fresh_jar = \<lparr>j_res = [], j_secure = False, j_keys = None, j_store = []\<rparr>"

text \<open>A jar over a secure connection with the keyring \<^verbatim>\<open>["k1"]\<close> and no inbound cookies.\<close>

definition keyed_jar :: CookieJar where
  "keyed_jar = \<lparr>j_res = [], j_secure = True, j_keys = Some (Keygrip ''k1'' []), j_store = []\<rparr>"

text \<open>\<^verbatim>\<open>{ signed: true }\<close> and \<^verbatim>\<open>{ overwrite: true }\<close>.\<close>

definition signed_opts :: CookieOptions where
  "signed_opts = no_opts\<lparr>o_signed := Some True\<rparr>"

definition overwrite_opts :: CookieOptions where
  "overwrite_opts = no_opts\<lparr>o_overwrite := Some True\<rparr>"

text \<open>The cookie that the later revision builds from a name, a value and empty options.\<close>

definition plain_cookie :: "string \<Rightarrow> jsvalue \<Rightarrow> Cookie" where
  "plain_cookie name val =
     \<lparr>c_name = name, c_value = val, c_secure = None, c_domain = None, c_path = ''/'',
      c_httpOnly = True, c_sameSite = None, c_maxAge = None, c_expires = None\<rparr>"

section \<open>What each method leaves untouched\<close>

lemma field_content_nonempty: "FIELD_CONTENT_REGEXP s \<Longrightarrow> s \<noteq> []"
  by (simp add: FIELD_CONTENT_REGEXP_def)

lemma field_content_examples:
  "FIELD_CONTENT_REGEXP ''LastVisit''" "FIELD_CONTENT_REGEXP ''100''"
  "FIELD_CONTENT_REGEXP ''n''" "FIELD_CONTENT_REGEXP ''a''" "FIELD_CONTENT_REGEXP ''b''"
  by (simp_all add: FIELD_CONTENT_REGEXP_def field_vchar_def)

lemma setCookie_v2_fields:
  "setCookie_v2 E n v opts jar = (r, jar') \<Longrightarrow>
     j_store jar' = j_store jar \<and> j_keys jar' = j_keys jar \<and> j_secure jar' = j_secure jar"
  by (auto simp: setCookie_v2_def Let_def split: sum.splits option.splits if_splits)

lemma delete_v2_fields:
  "delete_v2 E n opts jar = (r, jar') \<Longrightarrow>
     j_keys jar' = j_keys jar \<and> j_secure jar' = j_secure jar"
  by (auto simp: delete_v2_def super_delete_def Let_def
           split: sum.splits option.splits if_splits prod.splits
           dest: setCookie_v2_fields)

lemma set_v2_fields:
  "set_v2 E name val options jar = (r, jar') \<Longrightarrow>
     j_keys jar' = j_keys jar \<and> j_secure jar' = j_secure jar"
  by (auto simp: set_v2_def Let_def split: sum.splits option.splits if_splits prod.splits
           dest!: setCookie_v2_fields delete_v2_fields)

text \<open>
  In the later revision \<^verbatim>\<open>set\<close> reaches the underlying Map only through \<^verbatim>\<open>delete\<close>:
  with a truthy value, or with an options object, the entries stay as they were.
\<close>

lemma set_v2_store:
  assumes "truthy val \<or> options \<noteq> None" and "set_v2 E name val options jar = (r, jar')"
  shows "j_store jar' = j_store jar"
  using assms
  by (auto simp: set_v2_def Let_def split: sum.splits option.splits if_splits prod.splits
           dest!: setCookie_v2_fields)

section \<open>Round trips\<close>

text \<open>
  C2 (unsigned round trip). The claim: on a jar without keys, \<^verbatim>\<open>get(name)\<close> after
  \<^verbatim>\<open>set(name, v)\<close> returns \<open>v\<close> for every value \<open>v\<close> that passes the field-content
  grammar; \<^verbatim>\<open>set\<close> stores \<open>v\<close> under \<open>name\<close>.
  The later revision does otherwise: its \<^verbatim>\<open>set\<close> hands the cookie to the transport and
  never writes the Map, so the \<^verbatim>\<open>get\<close> that follows returns what the Map held for
  \<open>name\<close> before the call, which on a jar without that cookie is \<^verbatim>\<open>undefined\<close>.
\<close>

theorem set_v2_then_get_v2_returns_old_entry:
  assumes "j_keys jar = None" and "FIELD_CONTENT_REGEXP v"
  shows "\<exists>r jar'. set_v2 E name (Str v) None jar = (r, jar') \<and>
           get_v2 E name None jar' = (Inr (super_get jar name), jar')"
proof -
  obtain r jar' where s: "set_v2 E name (Str v) None jar = (r, jar')"
    by (cases "set_v2 E name (Str v) None jar")
  have tr: "truthy (Str v)"
    using assms(2) by (simp add: field_content_nonempty)
  have st: "j_store jar' = j_store jar"
    using set_v2_store [OF _ s] tr by simp
  have ks: "j_keys jar' = None"
    using set_v2_fields [OF s] assms(1) by simp
  have "get_v2 E name None jar' = (Inr (super_get jar name), jar')"
    using st ks by (simp add: get_v2_def signing_def super_get_def)
  with s show ?thesis by blast
qed

theorem set_v2_then_get_v2_returns_old_entry_witness:
  "j_keys fresh_jar = None \<and> FIELD_CONTENT_REGEXP ''100'' \<and>
   (\<exists>r jar'. set_v2 example_env ''LastVisit'' (Str ''100'') None fresh_jar = (r, jar') \<and>
      get_v2 example_env ''LastVisit'' None jar' = (Inr None, jar'))"
proof -
  have k: "j_keys fresh_jar = None"
    by (simp add: fresh_jar_def)
  have f: "FIELD_CONTENT_REGEXP ''100''"
    by (simp add: field_content_examples)
  have g: "super_get fresh_jar ''LastVisit'' = None"
    by (simp add: super_get_def fresh_jar_def)
  show ?thesis
    using k f g set_v2_then_get_v2_returns_old_entry [OF k f, of example_env "''LastVisit''"]
    by simp
qed

text \<open>
  The earlier revision writes the Map in its private \<^verbatim>\<open>setCookie\<close>: there the round trip
  holds for a valid name that the jar does not hold yet.
\<close>

lemma set_v1_then_get_v1_unsigned:
  assumes "j_keys jar = None" and "FIELD_CONTENT_REGEXP name" and "FIELD_CONTENT_REGEXP v"
    and "\<not> super_has jar name"
  shows "\<exists>jar'. set_v1 E name (Str v) None jar = (Inr (), jar') \<and>
           get_v1 E name None jar' = (Inr (Some v), jar')"
  using assms
  by (simp add: set_v1_def get_v1_def setCookie_v1_def super_set_def super_get_def
        signing_def no_opts_def field_content_nonempty Let_def update_conv')

section \<open>The overwrite policy\<close>

text \<open>
  Both revisions leave a name alone that the jar already holds, unless
  \<^verbatim>\<open>opts.overwrite\<close> is true. In the later revision the guard comes before every check.
\<close>

lemma set_v2_present_is_noop:
  assumes "super_has jar name" and "o_overwrite opts \<noteq> Some True"
  shows "set_v2 E name val (Some opts) jar = (Inr (), jar)"
  using assms by (simp add: set_v2_def)

lemma set_v2_present_is_noop_without_options:
  assumes "super_has jar name" and "truthy val"
  shows "set_v2 E name val None jar = (Inr (), jar)"
  using assms by (simp add: set_v2_def no_opts_def)

text \<open>
  C6 (overwrite policy). The claim: for a name the store already holds, \<^verbatim>\<open>set\<close> without
  \<^verbatim>\<open>overwrite\<close> is a no-op, and \<^verbatim>\<open>set(name, v, {overwrite: true})\<close> replaces the stored
  value with \<open>v\<close>.
  The first half is the two lemmas above. The second half fails in the later revision:
  with \<^verbatim>\<open>overwrite: true\<close> the guard is passed, but nothing after it writes the Map,
  so the store still holds the old value.
\<close>

theorem set_v2_overwrite_keeps_old_value:
  assumes "super_get jar name = Some old" and "FIELD_CONTENT_REGEXP v"
  shows "\<exists>r jar'. set_v2 E name (Str v) (Some overwrite_opts) jar = (r, jar') \<and>
           super_get jar' name = Some old"
proof -
  obtain r jar' where s: "set_v2 E name (Str v) (Some overwrite_opts) jar = (r, jar')"
    by (cases "set_v2 E name (Str v) (Some overwrite_opts) jar")
  have "j_store jar' = j_store jar"
    using set_v2_store [OF _ s] by simp
  then have "super_get jar' name = Some old"
    using assms(1) by (simp add: super_get_def)
  with s show ?thesis by blast
qed

theorem set_v2_overwrite_keeps_old_value_witness:
  "super_get (fresh_jar\<lparr>j_store := [(''n'', ''a'')]\<rparr>) ''n'' = Some ''a'' \<and>
   FIELD_CONTENT_REGEXP ''b'' \<and>
   (\<exists>r jar'. set_v2 example_env ''n'' (Str ''b'') (Some overwrite_opts)
                (fresh_jar\<lparr>j_store := [(''n'', ''a'')]\<rparr>) = (r, jar') \<and>
      super_get jar' ''n'' = Some ''a'')"
proof -
  have g: "super_get (fresh_jar\<lparr>j_store := [(''n'', ''a'')]\<rparr>) ''n'' = Some ''a''"
    by (simp add: super_get_def)
  have f: "FIELD_CONTENT_REGEXP ''b''"
    by (simp add: field_content_examples)
  show ?thesis
    using g f set_v2_overwrite_keeps_old_value [OF g f, of example_env] by simp
qed

text \<open>The earlier revision replaces the value, here for a cookie that is not signed.\<close>

lemma set_v1_overwrite_replaces:
  assumes "FIELD_CONTENT_REGEXP name" and "FIELD_CONTENT_REGEXP v" and "j_keys jar = None"
  shows "\<exists>jar'. set_v1 E name (Str v) (Some overwrite_opts) jar = (Inr (), jar') \<and>
           super_get jar' name = Some v"
  using assms
  by (simp add: set_v1_def setCookie_v1_def super_set_def super_get_def signing_def
        overwrite_opts_def no_opts_def field_content_nonempty Let_def update_conv')

section \<open>Errors and what they leave behind\<close>

text \<open>
  When the private \<^verbatim>\<open>setCookie\<close> of the later revision has succeeded once, it succeeds
  again on the jar it left, whatever the name and the value: its checks read the options,
  the security flag and the keys only.
\<close>

lemma setCookie_v2_succeeds_again:
  assumes "setCookie_v2 E n v opts jar = (Inr b, jar1)"
  shows "\<exists>b' jar2. setCookie_v2 E n' v' opts jar1 = (Inr b', jar2)"
proof -
  have f: "j_keys jar1 = j_keys jar" "j_secure jar1 = j_secure jar"
    using setCookie_v2_fields [OF assms] by simp_all
  show ?thesis
    using assms f
    by (auto simp: setCookie_v2_def signing_def Let_def
             split: sum.splits option.splits if_splits)
qed

lemma setCookie_v2_error_atomic:
  assumes "setCookie_v2 E n v opts jar = (Inl e, jar')"
    and "e \<noteq> Error ''.keys required for signed cookies''"
  shows "jar' = jar"
  using assms
  by (auto simp: setCookie_v2_def Let_def split: sum.splits option.splits if_splits)

text \<open>
  Every error of \<^verbatim>\<open>set\<close> but the one about missing keys is raised before the response or
  the Map is touched.
\<close>

lemma set_v2_error_atomic:
  assumes "set_v2 E name val options jar = (Inl e, jar')"
    and "e \<noteq> Error ''.keys required for signed cookies''"
  shows "jar' = jar"
proof (cases "\<not> truthy val \<and> options = None")
  case True
  then show ?thesis
    using assms
    by (auto simp: set_v2_def delete_v2_def super_delete_def Let_def
             split: prod.splits sum.splits if_splits)
next
  case False
  define opts where "opts = (case options of None \<Rightarrow> no_opts | Some o1 \<Rightarrow> o1)"
  show ?thesis
  proof (cases "setCookie_v2 E name val opts jar")
    case (Pair r jar1)
    show ?thesis
    proof (cases r)
      case (Inl e1)
      then show ?thesis
        using assms False Pair setCookie_v2_error_atomic [of E name val opts jar e1 jar1]
        by (auto simp: set_v2_def opts_def Let_def split: if_splits)
    next
      case (Inr b)
      show ?thesis
      proof (cases "j_keys jar1")
        case None
        then show ?thesis
          using assms False Pair Inr
          by (auto simp: set_v2_def opts_def Let_def split: if_splits)
      next
        case (Some kg)
        obtain b' jar2 where
          "setCookie_v2 E (name @ ''.sig'')
             (Str (sign E kg ((name @ ''.sig'') @ ''='' @ template val))) opts jar1 = (Inr b', jar2)"
          using setCookie_v2_succeeds_again Pair Inr by blast
        then show ?thesis
          using assms False Pair Inr Some
          by (auto simp: set_v2_def opts_def Let_def split: if_splits)
      qed
    qed
  qed
qed

text \<open>
  C5 (error atomicity). The claim: whenever \<^verbatim>\<open>set\<close> raises, it raises before any mutation
  of the store and before any directive is emitted; in particular a signing error never
  leaves a base-cookie directive behind.
  It fails for the signing error: the keys are asked for only after the base cookie has
  been handed to the transport, so signing requested on a jar without keys raises with the
  base directive already in the response.
\<close>

theorem set_v2_signing_error_leaves_directive:
  assumes "j_keys jar = None" and "FIELD_CONTENT_REGEXP name" and "FIELD_CONTENT_REGEXP v"
    and "\<not> super_has jar name"
  shows "set_v2 E name (Str v) (Some signed_opts) jar =
           (Inl (Error ''.keys required for signed cookies''),
            jar\<lparr>j_res := j_res jar @
              [SetCookie \<lparr>c_name = name, c_value = Str v, c_secure = None, c_domain = None,
                 c_path = ''/'', c_httpOnly = True, c_sameSite = None, c_maxAge = None,
                 c_expires = None\<rparr>]\<rparr>)"
  using assms
  by (simp add: set_v2_def setCookie_v2_def signed_opts_def no_opts_def signing_def
        parse_sameSite_def parse_maxAge_def parse_expires_def setCookie_def
        field_content_nonempty Let_def)

theorem set_v2_signing_error_leaves_directive_witness:
  "j_keys fresh_jar = None \<and> FIELD_CONTENT_REGEXP ''n'' \<and> FIELD_CONTENT_REGEXP ''a'' \<and>
   \<not> super_has fresh_jar ''n'' \<and>
   set_v2 example_env ''n'' (Str ''a'') (Some signed_opts) fresh_jar =
     (Inl (Error ''.keys required for signed cookies''),
      fresh_jar\<lparr>j_res :=
        [SetCookie \<lparr>c_name = ''n'', c_value = Str ''a'', c_secure = None, c_domain = None,
           c_path = ''/'', c_httpOnly = True, c_sameSite = None, c_maxAge = None,
           c_expires = None\<rparr>]\<rparr>)"
proof -
  have k: "j_keys fresh_jar = None"
    by (simp add: fresh_jar_def)
  have n: "FIELD_CONTENT_REGEXP ''n''" and a: "FIELD_CONTENT_REGEXP ''a''"
    by (simp_all add: field_content_examples)
  have h: "\<not> super_has fresh_jar ''n''"
    by (simp add: super_has_def fresh_jar_def)
  have r: "j_res fresh_jar = []"
    by (simp add: fresh_jar_def)
  show ?thesis
    using k n a h r set_v2_signing_error_leaves_directive [OF k n a h, of example_env]
    by simp
qed

text \<open>
  The earlier revision has the same order, and there the Map has been written as well.
\<close>

lemma set_v1_signing_error_leaves_entry:
  assumes "j_keys jar = None" and "FIELD_CONTENT_REGEXP name" and "FIELD_CONTENT_REGEXP v"
    and "\<not> super_has jar name"
  shows "\<exists>jar'. set_v1 E name (Str v) (Some signed_opts) jar =
                   (Inl (Error ''.keys required for signed cookies''), jar') \<and>
           super_get jar' name = Some v \<and> j_res jar' \<noteq> j_res jar"
  using assms
  by (simp add: set_v1_def setCookie_v1_def super_set_def super_get_def signing_def
        signed_opts_def no_opts_def setCookie_def field_content_nonempty Let_def update_conv')

section \<open>The sameSite option\<close>

text \<open>
  In the later revision a string is looked up in the table under its lower-case form and
  is never refused: a string outside the table gives a cookie without the attribute.
\<close>

lemma parse_sameSite_string:
  "s \<noteq> [] \<Longrightarrow> parse_sameSite (Some (SSString s)) = Inr (SAME_SITE (toLowerCase s))"
  by (simp add: parse_sameSite_def)

lemma parse_sameSite_examples:
  "parse_sameSite (Some (SSString ''Strict'')) = Inr (Some (SameSite ''Strict''))"
  "parse_sameSite (Some (SSString ''LAX'')) = Inr (Some (SameSite ''Lax''))"
  "parse_sameSite (Some (SSString ''none'')) = Inr (Some (SameSite ''None''))"
  "parse_sameSite (Some (SSString ''sideways'')) = Inr None"
  by code_simp+

lemma parse_sameSite_true:
  "parse_sameSite (Some SSTrue) = Inl (TypeError ''option sameSite is invalid'')"
  by (simp add: parse_sameSite_def)

text \<open>
  C9 (sameSite normalisation). The claim: the input is case-normalised and mapped through
  the table true, strict, lax, none; every value outside the table is a validation error;
  in particular \<^verbatim>\<open>sameSite: true\<close> is accepted and maps to Strict.
  The later revision, the one with the table, tests \<^verbatim>\<open>typeof opts.sameSite != "string"\<close>,
  the type of the input and not of the value found in the table: \<^verbatim>\<open>true\<close> is refused
  although the table has an entry for it, and no string is refused.
\<close>

theorem set_v2_sameSite_true_is_refused:
  assumes "FIELD_CONTENT_REGEXP name" and "FIELD_CONTENT_REGEXP v" and "\<not> super_has jar name"
  shows "set_v2 E name (Str v) (Some (no_opts\<lparr>o_sameSite := Some SSTrue\<rparr>)) jar =
           (Inl (TypeError ''option sameSite is invalid''), jar)"
  using assms
  by (simp add: set_v2_def setCookie_v2_def no_opts_def parse_sameSite_true
        field_content_nonempty)

theorem set_v2_sameSite_true_is_refused_witness:
  "FIELD_CONTENT_REGEXP ''n'' \<and> FIELD_CONTENT_REGEXP ''a'' \<and> \<not> super_has fresh_jar ''n'' \<and>
   set_v2 example_env ''n'' (Str ''a'') (Some (no_opts\<lparr>o_sameSite := Some SSTrue\<rparr>)) fresh_jar =
     (Inl (TypeError ''option sameSite is invalid''), fresh_jar)"
proof -
  have n: "FIELD_CONTENT_REGEXP ''n''" and a: "FIELD_CONTENT_REGEXP ''a''"
    by (simp_all add: field_content_examples)
  have h: "\<not> super_has fresh_jar ''n''"
    by (simp add: super_has_def fresh_jar_def)
  show ?thesis
    using n a h set_v2_sameSite_true_is_refused [OF n a h, of example_env] by simp
qed

text \<open>A string outside the table passes, and the cookie goes out without the attribute.\<close>

lemma set_v2_sameSite_unknown_string_passes:
  "set_v2 example_env ''n'' (Str ''a'')
     (Some (no_opts\<lparr>o_sameSite := Some (SSString ''sideways'')\<rparr>)) fresh_jar =
   (Inr (), fresh_jar\<lparr>j_res := [SetCookie (plain_cookie ''n'' (Str ''a''))]\<rparr>)"
  by (simp add: set_v2_def setCookie_v2_def no_opts_def parse_sameSite_examples
        parse_maxAge_def parse_expires_def signing_def setCookie_def plain_cookie_def
        fresh_jar_def super_has_def field_content_examples)

text \<open>
  The earlier revision has no table: it accepts \<^verbatim>\<open>true\<close> and the three lower-case
  strings, refuses everything else and builds the cookie without the attribute.
\<close>

lemma set_v1_sameSite:
  "set_v1 example_env ''n'' (Str ''a'') (Some (no_opts\<lparr>o_sameSite := Some SSTrue\<rparr>)) fresh_jar =
     (Inr (), fresh_jar\<lparr>j_res := [SetCookie ((plain_cookie ''n'' (Str ''a''))\<lparr>c_secure := Some False\<rparr>)],
                       j_store := [(''n'', ''a'')]\<rparr>)"
  "set_v1 example_env ''n'' (Str ''a'') (Some (no_opts\<lparr>o_sameSite := Some (SSString ''Strict'')\<rparr>))
     fresh_jar = (Inl (TypeError ''option sameSite is invalid''), fresh_jar)"
  by (simp_all add: set_v1_def setCookie_v1_def no_opts_def signing_def setCookie_def
        plain_cookie_def super_set_def fresh_jar_def super_has_def field_content_examples)

section \<open>Nullish values\<close>

text \<open>
  C8 (nullish value deletes). The claim: \<^verbatim>\<open>set(name, null)\<close> and
  \<^verbatim>\<open>set(name, undefined)\<close> behave as \<^verbatim>\<open>delete(name)\<close>, whether or not options are
  supplied.
  The later revision deletes only when the value is falsy and there is no options object,
  as its documentation says. With an options object the call goes on as a normal
  \<^verbatim>\<open>set\<close>: on a name the jar holds it is a no-op, where \<^verbatim>\<open>delete\<close> removes the entry
  and emits an expiring directive.
\<close>

theorem set_v2_null_with_options_counterexample:
  "set_v2 example_env ''n'' Null (Some no_opts) (fresh_jar\<lparr>j_store := [(''n'', ''a'')]\<rparr>) =
     (Inr (), fresh_jar\<lparr>j_store := [(''n'', ''a'')]\<rparr>) \<and>
   delete_v2 example_env ''n'' None (fresh_jar\<lparr>j_store := [(''n'', ''a'')]\<rparr>) =
     (Inr True, fresh_jar\<lparr>j_res := [DeleteCookie ''n''], j_store := []\<rparr>)"
  by (simp add: set_v2_def delete_v2_def no_opts_def super_has_def super_delete_def
        deleteCookie_def fresh_jar_def field_content_examples AList.delete_eq)

text \<open>
  C8 as amended: without an options argument, \<^verbatim>\<open>set(name, null)\<close> and
  \<^verbatim>\<open>set(name, undefined)\<close> do what \<^verbatim>\<open>delete(name)\<close> does: the same jar is left
  behind, and the same error is raised if there is one.
\<close>

theorem set_v2_nullish_without_options_is_delete:
  "set_v2 E name Null None jar =
     (map_sum id (\<lambda>d. ()) (fst (delete_v2 E name None jar)), snd (delete_v2 E name None jar)) \<and>
   set_v2 E name Undefined None jar =
     (map_sum id (\<lambda>d. ()) (fst (delete_v2 E name None jar)), snd (delete_v2 E name None jar))"
  by (cases "delete_v2 E name None jar")
     (auto simp: set_v2_def split: sum.splits)

text \<open>The earlier revision deletes on a falsy value whatever the options are.\<close>

lemma set_v1_nullish_is_delete:
  "\<not> truthy val \<Longrightarrow>
   set_v1 E name val options jar =
     (map_sum id (\<lambda>d. ()) (fst (delete_v1 name jar)), snd (delete_v1 name jar))"
  by (cases "delete_v1 name jar") (auto simp: set_v1_def split: sum.splits)

section \<open>Signed cookies\<close>

lemma field_content_sig:
  "FIELD_CONTENT_REGEXP name \<Longrightarrow> FIELD_CONTENT_REGEXP (name @ ''.sig'')"
  by (simp add: FIELD_CONTENT_REGEXP_def field_vchar_def)

lemma findIndex_ge: "- 1 \<le> findIndex P xs"
  by (induction xs) (auto simp: Let_def)

lemma findIndex_none: "(findIndex P xs = - 1) = (\<forall>x \<in> set xs. \<not> P x)"
proof (induction xs)
  case Nil
  show ?case by simp
next
  case (Cons x xs)
  have "- 1 \<le> findIndex P xs"
    by (rule findIndex_ge)
  then have "findIndex P xs + 1 \<noteq> - 1"
    by arith
  with Cons show ?case
    by (auto simp: Let_def)
qed

text \<open>
  Position \<open>-1\<close> means that no key of the ring gives the digest, and a digest made by
  \<open>sign\<close> verifies at position 0.
\<close>

lemma index_none:
  "(index E kg data digest = - 1) = (\<forall>key \<in> set (keys_of kg). digest \<noteq> hmac E key data)"
  by (simp add: index_def findIndex_none)

lemma index_sign: "index E kg data (sign E kg data) = 0"
  by (cases kg) (simp add: index_def)

text \<open>
  What a signed \<^verbatim>\<open>set\<close> of the later revision does on a jar with keys: the private
  \<^verbatim>\<open>setCookie\<close> signs by itself and \<^verbatim>\<open>set\<close> signs once more and calls it again, so
  four directives go out, for \<open>name\<close>, twice for \<open>name.sig\<close> and for \<open>name.sig.sig\<close>; all
  signatures are taken over data that starts with the name already renamed; and the Map is
  left as it was.
\<close>

lemma set_v2_signed_effect:
  assumes "j_keys jar = Some kg" and "FIELD_CONTENT_REGEXP name" and "FIELD_CONTENT_REGEXP v"
    and "\<not> super_has jar name"
  shows "set_v2 E name (Str v) (Some signed_opts) jar =
           (Inr (),
            jar\<lparr>j_res := j_res jar @
              [SetCookie (plain_cookie name (Str v)),
               SetCookie (plain_cookie (name @ ''.sig'')
                 (Str (sign E kg (name @ ''.sig='' @ v)))),
               SetCookie (plain_cookie (name @ ''.sig'')
                 (Str (sign E kg (name @ ''.sig='' @ v)))),
               SetCookie (plain_cookie (name @ ''.sig.sig'')
                 (Str (sign E kg (name @ ''.sig.sig='' @ sign E kg (name @ ''.sig='' @ v)))))]\<rparr>)"
  using assms
  by (simp add: set_v2_def setCookie_v2_def signed_opts_def no_opts_def signing_def
        parse_sameSite_def parse_maxAge_def parse_expires_def setCookie_def plain_cookie_def
        field_content_nonempty Let_def)

text \<open>
  C1 (signed round trip). The claim: with keys configured, \<^verbatim>\<open>get(name, {signed: true})\<close>
  after \<^verbatim>\<open>set(name, v, {signed: true})\<close> returns \<open>v\<close>, and the signature stored under
  \<open>name.sig\<close> verifies against the data \<open>name=v\<close> that \<^verbatim>\<open>get\<close> checks.
  In the later revision the signed \<^verbatim>\<open>set\<close> stores neither the value nor a signature, so
  on a jar that held neither entry the \<^verbatim>\<open>get\<close> that follows returns \<^verbatim>\<open>undefined\<close>.
\<close>

theorem set_v2_signed_then_get_v2_is_absent:
  assumes "j_keys jar = Some kg" and "FIELD_CONTENT_REGEXP v"
    and "\<not> super_has jar name" and "\<not> super_has jar (name @ ''.sig'')"
  shows "\<exists>r jar'. set_v2 E name (Str v) (Some signed_opts) jar = (r, jar') \<and>
           get_v2 E name (Some True) jar' = (Inr None, jar')"
proof -
  obtain r jar' where s: "set_v2 E name (Str v) (Some signed_opts) jar = (r, jar')"
    by (cases "set_v2 E name (Str v) (Some signed_opts) jar")
  have st: "j_store jar' = j_store jar"
    using set_v2_store [OF _ s] by simp
  have "get_v2 E name (Some True) jar' = (Inr None, jar')"
    using st assms(3,4) by (simp add: get_v2_def signing_def super_get_def super_has_def)
  with s show ?thesis by blast
qed

theorem set_v2_signed_then_get_v2_is_absent_witness:
  "j_keys keyed_jar = Some (Keygrip ''k1'' []) \<and> FIELD_CONTENT_REGEXP ''100'' \<and>
   \<not> super_has keyed_jar ''LastVisit'' \<and> \<not> super_has keyed_jar (''LastVisit'' @ ''.sig'') \<and>
   (\<exists>r jar'. set_v2 example_env ''LastVisit'' (Str ''100'') (Some signed_opts) keyed_jar = (r, jar') \<and>
      get_v2 example_env ''LastVisit'' (Some True) jar' = (Inr None, jar'))"
proof -
  have k: "j_keys keyed_jar = Some (Keygrip ''k1'' [])"
    by (simp add: keyed_jar_def)
  have f: "FIELD_CONTENT_REGEXP ''100''"
    by (simp add: field_content_examples)
  have h1: "\<not> super_has keyed_jar ''LastVisit''"
    by (simp add: super_has_def keyed_jar_def)
  have h2: "\<not> super_has keyed_jar (''LastVisit'' @ ''.sig'')"
    by (simp add: super_has_def keyed_jar_def)
  show ?thesis
    using k f h1 h2 set_v2_signed_then_get_v2_is_absent [OF k f h1 h2, of example_env]
    by simp
qed

text \<open>
  The earlier revision stores both entries, but it renames the cookie before it signs:
  the stored signature is over \<open>name.sig=v\<close>, while \<^verbatim>\<open>get\<close> verifies \<open>name=v\<close>. Unless
  some key gives both data strings the same digest, the \<^verbatim>\<open>get\<close> that follows finds no
  matching key, deletes the signature and returns \<^verbatim>\<open>undefined\<close>.
\<close>

lemma set_v1_signed_then_get_v1_is_absent:
  assumes "j_keys jar = Some kg" and "FIELD_CONTENT_REGEXP name" and "FIELD_CONTENT_REGEXP v"
    and "\<not> super_has jar name" and "\<not> super_has jar (name @ ''.sig'')"
    and "index E kg (name @ ''='' @ v) (sign E kg (name @ ''.sig='' @ v)) = - 1"
  shows "\<exists>jar'. set_v1 E name (Str v) (Some signed_opts) jar = (Inr (), jar') \<and>
           super_get jar' name = Some v \<and>
           super_get jar' (name @ ''.sig'') = Some (sign E kg (name @ ''.sig='' @ v)) \<and>
           fst (get_v1 E name (Some True) jar') = Inr None"
  using assms field_content_sig [OF assms(2)]
  by (simp add: set_v1_def get_v1_def delete_v1_def setCookie_v1_def super_set_def
        super_get_def super_has_def super_delete_def signing_def signed_opts_def no_opts_def
        field_content_nonempty Let_def update_conv')

lemma set_v1_signed_then_get_v1_example:
  "fst (get_v1 example_env ''LastVisit'' (Some True)
     (snd (set_v1 example_env ''LastVisit'' (Str ''100'') (Some signed_opts) keyed_jar))) = Inr None"
  by (simp add: set_v1_def get_v1_def delete_v1_def setCookie_v1_def super_set_def
        super_get_def super_has_def super_delete_def signing_def signed_opts_def no_opts_def
        keyed_jar_def example_env_def index_def FIELD_CONTENT_REGEXP_def field_vchar_def Let_def)

section \<open>Key rotation\<close>

text \<open>
  C3 (key rotation). The claim: when the stored signature verifies at a position greater
  than 0, \<^verbatim>\<open>get\<close> returns the value and replaces the \<open>name.sig\<close> entry with a fresh
  signature under the current key, so that the next \<^verbatim>\<open>get\<close> verifies at position 0.
  \<^verbatim>\<open>get\<close> does return the value, and it does call
  \<^verbatim>\<open>this.set(signatureName, this.#keys.sign(data), { signed: false })\<close>; but the jar
  holds \<open>name.sig\<close> and the call does not ask to overwrite, so \<^verbatim>\<open>set\<close> returns at its
  overwrite guard: no entry is replaced and no directive is emitted. The jar is left as it
  was, and the next \<^verbatim>\<open>get\<close> verifies at the same position again.
\<close>

theorem get_v2_rotation_leaves_jar:
  assumes "signing sgn_opt jar" and "j_keys jar = Some kg"
    and "super_get jar (name @ ''.sig'') = Some sg" and "sg \<noteq> []"
    and "0 < index E kg (name @ ''='' @ template_opt (super_get jar name)) sg"
  shows "get_v2 E name sgn_opt jar = (Inr (super_get jar name), jar)"
proof -
  have h: "super_has jar (name @ ''.sig'')"
    using assms(3) by (simp add: super_has_def super_get_def)
  have "set_v2 E (name @ ''.sig'')
          (Str (sign E kg (name @ ''='' @ template_opt (super_get jar name))))
          (Some (no_opts\<lparr>o_signed := Some False\<rparr>)) jar = (Inr (), jar)"
    by (rule set_v2_present_is_noop [OF h]) (simp add: no_opts_def)
  then show ?thesis
    using assms by (simp add: get_v2_def Let_def)
qed

theorem get_v2_rotation_leaves_jar_witness:
  "signing None (keyed_jar\<lparr>j_keys := Some (Keygrip ''k2'' [''k1'']),
      j_store := [(''n'', ''a''), (''n.sig'', ''k1:n=a'')]\<rparr>) \<and>
   index example_env (Keygrip ''k2'' [''k1'']) ''n=a'' ''k1:n=a'' = 1 \<and>
   sign example_env (Keygrip ''k2'' [''k1'']) ''n=a'' = ''k2:n=a'' \<and>
   get_v2 example_env ''n'' None
     (keyed_jar\<lparr>j_keys := Some (Keygrip ''k2'' [''k1'']),
        j_store := [(''n'', ''a''), (''n.sig'', ''k1:n=a'')]\<rparr>) =
     (Inr (Some ''a''),
      keyed_jar\<lparr>j_keys := Some (Keygrip ''k2'' [''k1'']),
        j_store := [(''n'', ''a''), (''n.sig'', ''k1:n=a'')]\<rparr>)"
proof -
  let ?jar = "keyed_jar\<lparr>j_keys := Some (Keygrip ''k2'' [''k1'']),
                j_store := [(''n'', ''a''), (''n.sig'', ''k1:n=a'')]\<rparr>"
  have a: "signing None ?jar"
    by (simp add: signing_def)
  have b: "j_keys ?jar = Some (Keygrip ''k2'' [''k1''])"
    by simp
  have c: "super_get ?jar (''n'' @ ''.sig'') = Some ''k1:n=a''"
    by (simp add: super_get_def)
  have d: "''k1:n=a'' \<noteq> []"
    by simp
  have v: "super_get ?jar ''n'' = Some ''a''"
    by (simp add: super_get_def)
  have i: "index example_env (Keygrip ''k2'' [''k1'']) ''n=a'' ''k1:n=a'' = 1"
    by (simp add: index_def example_env_def)
  have e: "0 < index example_env (Keygrip ''k2'' [''k1''])
                 (''n'' @ ''='' @ template_opt (super_get ?jar ''n'')) ''k1:n=a''"
    using i v by simp
  have s: "sign example_env (Keygrip ''k2'' [''k1'']) ''n=a'' = ''k2:n=a''"
    by (simp add: example_env_def)
  show ?thesis
    using a i s v get_v2_rotation_leaves_jar [OF a b c d e] by simp
qed

text \<open>
  The earlier revision does the same, for a signature that is not the empty string: its
  \<^verbatim>\<open>setCookie\<close> skips a name the jar holds.
\<close>

lemma get_v1_rotation_leaves_jar:
  assumes "signing sgn_opt jar" and "j_keys jar = Some kg"
    and "super_get jar (name @ ''.sig'') = Some sg" and "sg \<noteq> []"
    and "0 < index E kg (name @ ''='' @ template_opt (super_get jar name)) sg"
    and "sign E kg (name @ ''='' @ template_opt (super_get jar name)) \<noteq> []"
  shows "snd (get_v1 E name sgn_opt jar) = jar"
proof -
  have h: "super_has jar (name @ ''.sig'')"
    using assms(3) by (simp add: super_has_def super_get_def)
  have "snd (set_v1 E (name @ ''.sig'')
               (Str (sign E kg (name @ ''='' @ template_opt (super_get jar name))))
               (Some (no_opts\<lparr>o_signed := Some False\<rparr>)) jar) = jar"
    using h assms(6)
    by (simp add: set_v1_def setCookie_v1_def signing_def no_opts_def Let_def)
  then obtain r where
    "set_v1 E (name @ ''.sig'')
       (Str (sign E kg (name @ ''='' @ template_opt (super_get jar name))))
       (Some (no_opts\<lparr>o_signed := Some False\<rparr>)) jar = (r, jar)"
    by (metis prod.collapse)
  then show ?thesis
    using assms(1-5)
    by (simp add: get_v1_def Let_def split: sum.splits)
qed

section \<open>Forged signatures\<close>

text \<open>
  C4 (forged signature). The claim: for every name, if verification during \<^verbatim>\<open>get(name)\<close>
  finds no matching key (position -1), \<^verbatim>\<open>get\<close> returns \<^verbatim>\<open>undefined\<close> and removes the
  \<open>name.sig\<close> entry, while the base entry may remain.
  \<^verbatim>\<open>get\<close> removes the entry through \<^verbatim>\<open>this.delete(signatureName)\<close>, and \<^verbatim>\<open>delete\<close>
  validates the name it is given first. The Map is filled from the request without
  validation; for a name with a character outside the field-content grammar, such as DEL,
  \<^verbatim>\<open>get\<close> raises the TypeError of \<^verbatim>\<open>delete\<close> and the entry stays.
\<close>

theorem get_v2_forged_invalid_name_counterexample:
  "index example_env (Keygrip ''k1'' []) ([CHR 0x7F] @ ''=a'') ''forged'' = - 1 \<and>
   get_v2 example_env [CHR 0x7F] (Some True)
     (keyed_jar\<lparr>j_store := [([CHR 0x7F], ''a''), ([CHR 0x7F] @ ''.sig'', ''forged'')]\<rparr>) =
     (Inl (TypeError ''argument name is invalid''),
      keyed_jar\<lparr>j_store := [([CHR 0x7F], ''a''), ([CHR 0x7F] @ ''.sig'', ''forged'')]\<rparr>) \<and>
   has (keyed_jar\<lparr>j_store := [([CHR 0x7F], ''a''), ([CHR 0x7F] @ ''.sig'', ''forged'')]\<rparr>)
     ([CHR 0x7F] @ ''.sig'')"
  by (simp add: get_v2_def delete_v2_def signing_def super_get_def super_has_def has_def
        keyed_jar_def index_def example_env_def FIELD_CONTENT_REGEXP_def field_vchar_def)

text \<open>
  C4 as amended: for every name whose shadow name \<open>name.sig\<close> passes the field-content
  grammar, if verification during \<^verbatim>\<open>get(name)\<close> with signing in effect finds no matching
  key, then \<^verbatim>\<open>get\<close> returns \<^verbatim>\<open>undefined\<close>, emits an expiring directive for \<open>name.sig\<close>
  and removes that entry, so that \<^verbatim>\<open>has("name.sig")\<close> is false afterwards; the base entry
  is left as it was.
\<close>

theorem get_v2_forged_signature:
  assumes "signing sgn_opt jar" and "j_keys jar = Some kg"
    and "super_get jar (name @ ''.sig'') = Some sg" and "sg \<noteq> []"
    and "index E kg (name @ ''='' @ template_opt (super_get jar name)) sg = - 1"
    and "FIELD_CONTENT_REGEXP (name @ ''.sig'')"
  shows "\<exists>jar'. get_v2 E name sgn_opt jar = (Inr None, jar') \<and>
           \<not> has jar' (name @ ''.sig'') \<and>
           super_get jar' name = super_get jar name \<and>
           j_res jar' = j_res jar @ [DeleteCookie (name @ ''.sig'')]"
  using assms
  by (simp add: get_v2_def delete_v2_def super_delete_def super_get_def super_has_def has_def
        deleteCookie_def delete_conv' Let_def)

theorem get_v2_forged_signature_witness:
  "signing None (keyed_jar\<lparr>j_store := [(''n'', ''a''), (''n.sig'', ''forged'')]\<rparr>) \<and>
   index example_env (Keygrip ''k1'' []) ''n=a'' ''forged'' = - 1 \<and>
   FIELD_CONTENT_REGEXP ''n.sig'' \<and>
   (\<exists>jar'. get_v2 example_env ''n'' None
              (keyed_jar\<lparr>j_store := [(''n'', ''a''), (''n.sig'', ''forged'')]\<rparr>) = (Inr None, jar') \<and>
      \<not> has jar' ''n.sig'' \<and> super_get jar' ''n'' = Some ''a'' \<and>
      j_res jar' = [DeleteCookie ''n.sig''])"
proof -
  let ?jar = "keyed_jar\<lparr>j_store := [(''n'', ''a''), (''n.sig'', ''forged'')]\<rparr>"
  have a: "signing None ?jar"
    by (simp add: signing_def keyed_jar_def)
  have b: "j_keys ?jar = Some (Keygrip ''k1'' [])"
    by (simp add: keyed_jar_def)
  have c: "super_get ?jar (''n'' @ ''.sig'') = Some ''forged''"
    by (simp add: super_get_def)
  have d: "''forged'' \<noteq> []"
    by simp
  have v: "super_get ?jar ''n'' = Some ''a''"
    by (simp add: super_get_def)
  have i: "index example_env (Keygrip ''k1'' []) ''n=a'' ''forged'' = - 1"
    by (simp add: index_def example_env_def)
  have e: "index example_env (Keygrip ''k1'' [])
             (''n'' @ ''='' @ template_opt (super_get ?jar ''n'')) ''forged'' = - 1"
    using i v by simp
  have f: "FIELD_CONTENT_REGEXP (''n'' @ ''.sig'')"
    by (simp add: FIELD_CONTENT_REGEXP_def field_vchar_def)
  have r: "j_res ?jar = []"
    by (simp add: keyed_jar_def)
  show ?thesis
    using a i f v r get_v2_forged_signature [OF a b c d e f] by simp
qed

text \<open>
  The earlier revision behaves alike; it falls off the end of \<^verbatim>\<open>get\<close> after the
  deletion.
\<close>

lemma get_v1_forged_signature:
  assumes "signing sgn_opt jar" and "j_keys jar = Some kg"
    and "super_get jar (name @ ''.sig'') = Some sg" and "sg \<noteq> []"
    and "index E kg (name @ ''='' @ template_opt (super_get jar name)) sg = - 1"
    and "FIELD_CONTENT_REGEXP (name @ ''.sig'')"
  shows "\<exists>jar'. get_v1 E name sgn_opt jar = (Inr None, jar') \<and>
           \<not> has jar' (name @ ''.sig'') \<and>
           super_get jar' name = super_get jar name"
  using assms
  by (simp add: get_v1_def delete_v1_def super_delete_def super_get_def super_has_def has_def
        deleteCookie_def delete_conv' Let_def)

section \<open>Base and shadow entries\<close>

text \<open>
  C7 (shadow-pair invariant). The claim: base and \<open>name.sig\<close> entries are mutated
  together by every public operation: a signed \<^verbatim>\<open>set\<close> creates or updates both,
  \<^verbatim>\<open>delete(name)\<close> removes both, and no operation leaves one without the other.
  \<^verbatim>\<open>delete(name)\<close> removes the entry of \<open>name\<close> and nothing else, in both revisions: on a
  jar that holds a cookie and its signature it leaves the signature behind.
\<close>

theorem delete_v2_leaves_shadow_counterexample:
  "delete_v2 example_env ''n'' None
     (keyed_jar\<lparr>j_store := [(''n'', ''a''), (''n.sig'', ''k1:n=a'')]\<rparr>) =
     (Inr True, keyed_jar\<lparr>j_res := [DeleteCookie ''n''], j_store := [(''n.sig'', ''k1:n=a'')]\<rparr>) \<and>
   has (keyed_jar\<lparr>j_res := [DeleteCookie ''n''], j_store := [(''n.sig'', ''k1:n=a'')]\<rparr>) ''n.sig''"
  by (simp add: delete_v2_def super_delete_def super_has_def has_def deleteCookie_def
        keyed_jar_def field_content_examples AList.delete_eq)

lemma setCookie_v2_returns_true: "setCookie_v2 E n v opts jar = (Inr b, jar') \<Longrightarrow> b"
  by (auto simp: setCookie_v2_def Let_def split: sum.splits option.splits if_splits)

text \<open>
  C7 as amended: \<^verbatim>\<open>delete(name)\<close>, with or without options, removes the entry of \<open>name\<close>
  alone: afterwards the jar does not hold \<open>name\<close>, and the \<open>name.sig\<close> entry is as it was
  before; \<^verbatim>\<open>clear()\<close> removes every entry, base and shadow alike.
\<close>

theorem delete_v2_removes_base_only:
  assumes "delete_v2 E name opts jar = (Inr d, jar')"
  shows "j_store jar' = AList.delete name (j_store jar) \<and>
         \<not> has jar' name \<and>
         super_get jar' (name @ ''.sig'') = super_get jar (name @ ''.sig'') \<and>
         j_store (clear_v2 jar) = []"
proof -
  have st: "j_store jar' = AList.delete name (j_store jar)"
    using assms
    by (auto simp: delete_v2_def super_delete_def Let_def
             split: if_splits option.splits prod.splits sum.splits
             dest: setCookie_v2_fields setCookie_v2_returns_true)
  have "name @ ''.sig'' \<noteq> name"
    by simp
  then show ?thesis
    using st by (simp add: has_def super_has_def super_get_def delete_conv' clear_v2_def
                   super_clear_def)
qed

theorem delete_v2_removes_base_only_witness:
  "delete_v2 example_env ''n'' None
     (keyed_jar\<lparr>j_store := [(''n'', ''a''), (''n.sig'', ''k1:n=a'')]\<rparr>) =
     (Inr True, keyed_jar\<lparr>j_res := [DeleteCookie ''n''], j_store := [(''n.sig'', ''k1:n=a'')]\<rparr>) \<and>
   \<not> has (keyed_jar\<lparr>j_res := [DeleteCookie ''n''], j_store := [(''n.sig'', ''k1:n=a'')]\<rparr>) ''n'' \<and>
   super_get (keyed_jar\<lparr>j_res := [DeleteCookie ''n''], j_store := [(''n.sig'', ''k1:n=a'')]\<rparr>)
     ''n.sig'' = Some ''k1:n=a'' \<and>
   j_store (clear_v2 (keyed_jar\<lparr>j_store := [(''n'', ''a''), (''n.sig'', ''k1:n=a'')]\<rparr>)) = []"
proof -
  let ?jar = "keyed_jar\<lparr>j_store := [(''n'', ''a''), (''n.sig'', ''k1:n=a'')]\<rparr>"
  let ?jar' = "keyed_jar\<lparr>j_res := [DeleteCookie ''n''], j_store := [(''n.sig'', ''k1:n=a'')]\<rparr>"
  have d: "delete_v2 example_env ''n'' None ?jar = (Inr True, ?jar')"
    by (simp add: delete_v2_def super_delete_def super_has_def deleteCookie_def
          keyed_jar_def field_content_examples AList.delete_eq)
  have g: "super_get ?jar (''n'' @ ''.sig'') = Some ''k1:n=a''"
    by (simp add: super_get_def)
  show ?thesis
    using d g delete_v2_removes_base_only [OF d] by simp
qed

lemma delete_v1_removes_base_only:
  assumes "delete_v1 name jar = (Inr d, jar')"
  shows "j_store jar' = AList.delete name (j_store jar)"
  using assms
  by (auto simp: delete_v1_def super_delete_def Let_def split: if_splits)

text \<open>
  The skip rule of \<^verbatim>\<open>clear\<close> in the later revision: for a cookie held with its signature
  only the base name gets an expiring directive.
\<close>

lemma clear_v2_example:
  "clear_v2 (keyed_jar\<lparr>j_store := [(''n'', ''a''), (''n.sig'', ''k1:n=a'')]\<rparr>) =
     keyed_jar\<lparr>j_res := [DeleteCookie ''n''], j_store := []\<rparr>"
  by code_simp

end
